theory Spec2Isabelle
  imports Main
begin

section \<open>JavaScript values\<close>

text \<open>
  The dispatcher receives loosely shaped parameter objects, so the embedding works on a
  datatype of JavaScript values. Numbers are the integers (printed by JavaScript in plain
  decimal below \<open>10^21\<close>) and \<open>NaN\<close>; an object is the list of its own enumerable
  properties in insertion order; a function carries its source text (what \<open>String(f)\<close>
  returns) and its own properties. Objects are plain: no accessors, no overridden
  \<open>toString\<close>, and the properties read on a caller's object are not named like members
  of the built-in prototypes. The read of the registry table, where an inherited member
  changes the outcome, is modelled with those members.
\<close>

datatype jsval =
    JUndefined
  | JNull
  | JBool bool
  | JNum int
  | JNaN
  | JStr string
  | JArr "jsval list"
  | JObj "(string \<times> jsval) list"
  | JFun string "(string \<times> jsval) list"

type_synonym obj = "(string \<times> jsval) list"

text \<open>Truthiness, as tested by \<open>if (v)\<close>, \<open>!v\<close>, \<open>a && b\<close> and \<open>a || b\<close>.\<close>

fun truthy :: "jsval \<Rightarrow> bool" where
  "truthy JUndefined = False"
| "truthy JNull = False"
| "truthy (JBool b) = b"
| "truthy (JNum n) = (n \<noteq> 0)"
| "truthy JNaN = False"
| "truthy (JStr s) = (s \<noteq> [])"
| "truthy (JArr xs) = True"
| "truthy (JObj ps) = True"
| "truthy (JFun src ps) = True"

text \<open>The \<open>typeof\<close> operator.\<close>

fun typeof :: "jsval \<Rightarrow> string" where
  "typeof JUndefined = ''undefined''"
| "typeof JNull = ''object''"
| "typeof (JBool b) = ''boolean''"
| "typeof (JNum n) = ''number''"
| "typeof JNaN = ''number''"
| "typeof (JStr s) = ''string''"
| "typeof (JArr xs) = ''object''"
| "typeof (JObj ps) = ''object''"
| "typeof (JFun src ps) = ''function''"

text \<open>Reading a property of \<open>undefined\<close> or \<open>null\<close> throws a \<open>TypeError\<close>.\<close>

fun nullish :: "jsval \<Rightarrow> bool" where
  "nullish JUndefined = True"
| "nullish JNull = True"
| "nullish v = False"

text \<open>Decimal rendering of a number, and the string conversion \<open>String(v)\<close>.\<close>

fun show_nat :: "nat \<Rightarrow> string" where
  "show_nat n =
     (if n < 10 then [char_of (48 + n)]
      else show_nat (n div 10) @ [char_of (48 + n mod 10)])"

declare show_nat.simps [simp del]

definition show_int :: "int \<Rightarrow> string" where
  "show_int i = (if i < 0 then CHR ''-'' # show_nat (nat (- i)) else show_nat (nat i))"

fun join_comma :: "string list \<Rightarrow> string" where
  "join_comma [] = []"
| "join_comma [s] = s"
| "join_comma (s # t # ss) = s @ '','' @ join_comma (t # ss)"

fun ToString :: "jsval \<Rightarrow> string" where
  "ToString JUndefined = ''undefined''"
| "ToString JNull = ''null''"
| "ToString (JBool b) = (if b then ''true'' else ''false'')"
| "ToString (JNum n) = show_int n"
| "ToString JNaN = ''NaN''"
| "ToString (JStr s) = s"
| "ToString (JArr xs) = join_comma (map (\<lambda>x. if nullish x then [] else ToString x) xs)"
| "ToString (JObj ps) = ''[object Object]''"
| "ToString (JFun src ps) = src"

text \<open>
  Own properties seen by a property read \<open>v[k]\<close>: the properties of an object or a
  function, the indices and \<open>length\<close> of an array or of a string.
\<close>

fun own_props :: "jsval \<Rightarrow> obj" where
  "own_props (JObj ps) = ps"
| "own_props (JFun src ps) = ps"
| "own_props (JArr xs) =
     map (\<lambda>i. (show_nat i, xs ! i)) [0..<length xs] @ [(''length'', JNum (int (length xs)))]"
| "own_props (JStr s) =
     map (\<lambda>i. (show_nat i, JStr [s ! i])) [0..<length s] @ [(''length'', JNum (int (length s)))]"
| "own_props v = []"

definition obj_get :: "obj \<Rightarrow> string \<Rightarrow> jsval" where
  "obj_get ps k = (case map_of ps k of Some v \<Rightarrow> v | None \<Rightarrow> JUndefined)"

text \<open>\<open>get v k\<close> is the read \<open>v[k]\<close> on a value that is neither \<open>undefined\<close> nor \<open>null\<close>.\<close>

definition get :: "jsval \<Rightarrow> string \<Rightarrow> jsval" where
  "get v k = obj_get (own_props v) k"

text \<open>The assignment \<open>o[k] = v\<close>: an existing property keeps its place, a new one is appended.\<close>

fun obj_set :: "obj \<Rightarrow> string \<Rightarrow> jsval \<Rightarrow> obj" where
  "obj_set [] k v = [(k, v)]"
| "obj_set ((k', v') # ps) k v =
     (if k' = k then (k, v) # ps else (k', v') # obj_set ps k v)"

section \<open>Errors and promises\<close>

text \<open>
  The dispatcher rejects with \<open>new Error(message)\<close>; each constructor below is one of the
  rejections of the source, carrying the values interpolated into its message. A rejection
  coming from the transport carries the transport's reason unchanged.
\<close>

datatype error =
    MissingIntent
  | UnknownIntent jsval
  | InvalidParameters
  | InvalidPubkey
  | MissingRequiredParameter string jsval
  | TransportError jsval

definition message :: "error \<Rightarrow> string" where
  \<open>message e = (case e of
      MissingIntent \<Rightarrow> ''Parameter "intent" is required.''
    | UnknownIntent i \<Rightarrow> ''Unknown intent: "'' @ ToString i @ ''".''
    | InvalidParameters \<Rightarrow> ''Intent parameters expected.''
    | InvalidPubkey \<Rightarrow> ''Invalid "pubkey" parameter. Stellar account public key expected.''
    | MissingRequiredParameter k i \<Rightarrow>
        ''Parameter "'' @ k @ ''" is required for intent "'' @ ToString i @ ''".''
    | TransportError r \<Rightarrow> ToString r)\<close>

text \<open>
  A call either throws synchronously (destructuring \<open>undefined\<close> or \<open>null\<close>), or returns
  a promise that is rejected or resolved.
\<close>

datatype 'a outcome = ThrowsTypeError | Rejected error | Resolved 'a

section \<open>Intent registry\<close>

text \<open>
  The registry table \<open>intentInterface\<close> is a parameter: \<open>reg k\<close> is the descriptor read at
  \<open>intentInterface[k]\<close>, \<open>None\<close> when that read is falsy. A descriptor lists its declared
  parameters in the order \<open>for ... in\<close> enumerates them.
\<close>

record param_props =
  required :: bool

record intent_descriptor =
  params :: "(string \<times> param_props) list"

type_synonym registry = "string \<Rightarrow> intent_descriptor option"

text \<open>
  Modelled from the spec: the module \<open>intent-interface\<close> is not part of the sources at
  hand; the registry is a static table from intent name to descriptor. \<open>table k\<close> is the
  entry that the table itself has for \<open>k\<close>. The dispatcher reads the table with
  \<open>intentInterface[intent]\<close>, a property read on an object: where the table has no entry
  of its own, the read yields the member inherited from \<open>Object.prototype\<close> when \<open>k\<close>
  names one. Such a member is truthy and has no property \<open>params\<close>, so the loop over its
  declared parameters runs no iteration.
\<close>

type_synonym intent_table = "string \<Rightarrow> intent_descriptor option"

definition object_prototype_members :: "string list" where
  "object_prototype_members =
     [''constructor'', ''hasOwnProperty'', ''isPrototypeOf'', ''propertyIsEnumerable'',
      ''toLocaleString'', ''toString'', ''valueOf'', ''__proto__'', ''__defineGetter__'',
      ''__defineSetter__'', ''__lookupGetter__'', ''__lookupSetter__'']"

definition intentInterface_read :: "intent_table \<Rightarrow> registry" where
  "intentInterface_read table k =
     (case table k of
        Some d \<Rightarrow> Some d
      | None \<Rightarrow> if k \<in> set object_prototype_members then Some \<lparr>params = []\<rparr> else None)"

section \<open>Parameter preparation\<close>

text \<open>The test \<open>/^G[0-9A-Z]{55}$/.test(pubkey)\<close>, on the string form of its argument.\<close>

definition upper_alnum :: "char \<Rightarrow> bool" where
  "upper_alnum c =
     ((48 \<le> (of_char c :: nat) \<and> (of_char c :: nat) \<le> 57)
      \<or> (65 \<le> (of_char c :: nat) \<and> (of_char c :: nat) \<le> 90))"

definition pubkey_shape :: "string \<Rightarrow> bool" where
  "pubkey_shape s =
     (case s of [] \<Rightarrow> False
      | c # cs \<Rightarrow> c = CHR ''G'' \<and> length cs = 55 \<and> list_all upper_alnum cs)"

definition pubkey_test :: "jsval \<Rightarrow> bool" where
  "pubkey_test v = pubkey_shape (ToString v)"

text \<open>
  The loop of \<open>prepareRequestParams\<close> over the declared parameters: a truthy value is
  copied into \<open>requestParams\<close>, a required parameter without one rejects at once.
\<close>

fun check_params :: "(string \<times> param_props) list \<Rightarrow> jsval \<Rightarrow> jsval \<Rightarrow> obj \<Rightarrow> obj outcome" where
  "check_params [] p intent requestParams = Resolved requestParams"
| "check_params ((key, props) # rest) p intent requestParams =
     (if truthy (get p key) then check_params rest p intent (obj_set requestParams key (get p key))
      else if required props then Rejected (MissingRequiredParameter key intent)
      else check_params rest p intent requestParams)"

text \<open>
  \<open>prepareRequestParams(intentDescriptor, params)\<close>. \<open>typeof null\<close> is \<open>object\<close>, so \<open>null\<close>
  passes the first test and the destructuring \<open>const {intent, pubkey} = params\<close> throws.
  \<open>requestParams\<close> starts as \<open>{intent}\<close>.
\<close>

definition prepareRequestParams :: "intent_descriptor \<Rightarrow> jsval \<Rightarrow> obj outcome" where
  "prepareRequestParams intentDescriptor p =
     (if typeof p \<noteq> ''object'' then Rejected InvalidParameters
      else if nullish p then ThrowsTypeError
      else if truthy (get p ''pubkey'') \<and> \<not> pubkey_test (get p ''pubkey'') then Rejected InvalidPubkey
      else check_params (params intentDescriptor) p (get p ''intent'') [(''intent'', get p ''intent'')])"

section \<open>Session store\<close>

text \<open>
  Modelled from the spec: the module \<open>implicit-session-storage\<close> (its functions
  \<open>getImplicitSession\<close> and \<open>addSession\<close>) is not part of the sources at hand. The store
  keeps one session per \<open>pubkey\<close>, with the fields \<open>key\<close>, \<open>valid_until\<close> and \<open>grants\<close>.
\<close>

record implicit_session =
  key :: jsval
  valid_until :: jsval
  grants :: jsval

type_synonym session_store = "string \<Rightarrow> implicit_session option"

text \<open>Modelled from the spec: a session whose \<open>valid_until\<close> has passed is expired.\<close>

definition not_expired :: "int \<Rightarrow> jsval \<Rightarrow> bool" where
  "not_expired now v = (case v of JNum t \<Rightarrow> now \<le> t | _ \<Rightarrow> False)"

text \<open>Modelled from the spec: the intent is a member of the session's \<open>grants\<close>.\<close>

definition grants_include :: "jsval \<Rightarrow> jsval \<Rightarrow> bool" where
  "grants_include g intent = (case g of JArr names \<Rightarrow> intent \<in> set names | _ \<Rightarrow> False)"

text \<open>
  Modelled from the spec: \<open>get(intent, pubkey)\<close> returns a session only if present, not
  expired, and \<open>intent\<close> is a member of \<open>grants\<close>; otherwise absent. A pure lookup.
\<close>

definition getImplicitSession ::
  "session_store \<Rightarrow> int \<Rightarrow> jsval \<Rightarrow> jsval \<Rightarrow> implicit_session option" where
  "getImplicitSession store now intent pubkey =
     (case store (ToString pubkey) of
        None \<Rightarrow> None
      | Some s \<Rightarrow>
          if not_expired now (valid_until s) \<and> grants_include (grants s) intent then Some s
          else None)"

text \<open>
  Modelled from the spec: \<open>add(sessionResponse)\<close>, given a response payload containing
  \<open>pubkey\<close>, \<open>session\<close> (the token), \<open>valid_until\<close> and \<open>grants\<close>, overwrites any existing
  session for that \<open>pubkey\<close>.
\<close>

definition addSession :: "obj \<Rightarrow> session_store \<Rightarrow> session_store" where
  "addSession result store =
     store(ToString (obj_get result ''pubkey'') \<mapsto>
       \<lparr>key = obj_get result ''session'',
        valid_until = obj_get result ''valid_until'',
        grants = obj_get result ''grants''\<rparr>)"

section \<open>Transports and the environment\<close>

text \<open>
  The three transports built by \<open>createExtensionTransport()\<close>, \<open>createIframeTransport(url)\<close>
  and \<open>createDialogTransport(url)\<close>. Their construction and their \<open>postMessage\<close> are
  effects outside the dispatcher, so the environment records them: \<open>created\<close> lists the
  transports built so far and \<open>posted\<close> the envelopes handed to \<open>postMessage\<close>.
  \<open>extensionEnabled\<close> is the test \<open>window.albedo && window.albedo.extensionEnabled\<close>,
  \<open>clock\<close> the current time and \<open>sessions\<close> the session store.
\<close>

datatype transport = Extension | Iframe string | Dialog string

record world =
  extensionEnabled :: bool
  clock :: int
  sessions :: session_store
  created :: "transport list"
  posted :: "(transport \<times> obj) list"

text \<open>
  What the remote side answers to an envelope posted on a transport: \<open>Inl reason\<close> when
  the promise of \<open>postMessage\<close> is rejected, \<open>Inr result\<close> when it resolves with a result
  object.
\<close>

type_synonym remote = "transport \<Rightarrow> obj \<Rightarrow> jsval + obj"

section \<open>The dispatcher\<close>

text \<open>
  \<open>sendRequest(params, frontendUrl)\<close>. The values \<open>t1\<close>, \<open>t2\<close>, \<open>t3\<close> are the variable
  \<open>transport\<close> after each of its three conditional assignments (\<open>None\<close> while it is
  undefined); \<open>p'\<close> is \<open>params\<close> after the assignment of \<open>params.session\<close>. One transport
  is built per call, and \<open>postMessage\<close> is called once on it; its promise is either
  rejected, which the call passes on, or resolved with a result that the \<open>then\<close> callback
  may hand to \<open>addSession\<close> before returning it.
\<close>

definition sendRequest :: "remote \<Rightarrow> world \<Rightarrow> obj \<Rightarrow> string \<Rightarrow> world \<times> obj outcome" where
  "sendRequest answer w p frontendUrl =
     (let t1 = (if extensionEnabled w then Some Extension else None);
          session =
            (if truthy (obj_get p ''pubkey'')
             then getImplicitSession (sessions w) (clock w) (obj_get p ''intent'') (obj_get p ''pubkey'')
             else None);
          p' = (case session of Some s \<Rightarrow> obj_set p ''session'' (key s) | None \<Rightarrow> p);
          t2 = (case session of
                  Some s \<Rightarrow> (case t1 of Some t \<Rightarrow> Some t | None \<Rightarrow> Some (Iframe frontendUrl))
                | None \<Rightarrow> t1);
          t3 = (case t2 of Some t \<Rightarrow> t | None \<Rightarrow> Dialog frontendUrl);
          w' = w\<lparr>created := created w @ [t3], posted := posted w @ [(t3, p')]\<rparr>
      in case answer t3 p' of
           Inl reason \<Rightarrow> (w', Rejected (TransportError reason))
         | Inr result \<Rightarrow>
             (if obj_get result ''intent'' = JStr ''implicit_flow'' \<and> truthy (obj_get result ''granted'')
              then w'\<lparr>sessions := addSession result (sessions w')\<rparr>
              else w',
              Resolved result))"

text \<open>
  \<open>requestIntentConfirmation(params, frontendUrl)\<close>. The destructuring
  \<open>const {intent} = params\<close> throws on \<open>undefined\<close> and \<open>null\<close>; the registry is read at
  the property key of \<open>intent\<close>, its string form; \<open>sendRequest\<close> runs only in the \<open>then\<close>
  callback of a resolved \<open>prepareRequestParams\<close>.
\<close>

definition requestIntentConfirmation ::
  "registry \<Rightarrow> remote \<Rightarrow> world \<Rightarrow> jsval \<Rightarrow> string \<Rightarrow> world \<times> obj outcome" where
  "requestIntentConfirmation intentInterface answer w p frontendUrl =
     (if nullish p then (w, ThrowsTypeError)
      else if \<not> truthy (get p ''intent'') then (w, Rejected MissingIntent)
      else case intentInterface (ToString (get p ''intent'')) of
             None \<Rightarrow> (w, Rejected (UnknownIntent (get p ''intent'')))
           | Some intentDescriptor \<Rightarrow>
               (case prepareRequestParams intentDescriptor p of
                  ThrowsTypeError \<Rightarrow> (w, ThrowsTypeError)
                | Rejected e \<Rightarrow> (w, Rejected e)
                | Resolved requestParams \<Rightarrow> sendRequest answer w requestParams frontendUrl))"

section \<open>The public entry point\<close>

text \<open>
  \<open>request(intent, params)\<close> evaluates
  \<open>requestIntentConfirmation(Object.assign(params || {}, {intent}), this.frontendUrl)\<close>.

  The caller's object is shared with the caller, so it lives in a heap of objects and the
  argument is its address; \<open>None\<close> is an omitted \<open>params\<close>, for which a new object is
  made. An object of the heap is ordinary or frozen (\<open>Object.freeze\<close>). \<open>Object.assign\<close>
  writes \<open>intent\<close> into its first argument and returns it; on a frozen object the write
  throws a \<open>TypeError\<close> and leaves the object as it was.

  The callee is the name \<open>requestIntentConfirmation\<close> that the module imports from
  \<open>./intent-dispatcher\<close>. What that name is bound to is a parameter: \<open>Some f\<close> when it is
  bound to a function \<open>f\<close>, \<open>None\<close> when the imported module has no export of that name
  (\<open>intent-dispatcher.js\<close> as it stands has a default export only). The arguments of a call
  are evaluated before the callee is applied, so a call through an unbound name throws a
  \<open>TypeError\<close> after \<open>Object.assign\<close> has run.
\<close>

record heap_object =
  content :: obj
  is_frozen :: bool

type_synonym heap = "nat \<Rightarrow> heap_object"

type_synonym callee = "world \<Rightarrow> jsval \<Rightarrow> string \<Rightarrow> world \<times> obj outcome"

definition call_imported :: "callee option \<Rightarrow> world \<Rightarrow> jsval \<Rightarrow> string \<Rightarrow> world \<times> obj outcome" where
  "call_imported binding w target frontendUrl =
     (case binding of
        None \<Rightarrow> (w, ThrowsTypeError)
      | Some f \<Rightarrow> f w target frontendUrl)"

definition request ::
  "callee option \<Rightarrow> string \<Rightarrow> heap \<Rightarrow> world \<Rightarrow> jsval \<Rightarrow> nat option
     \<Rightarrow> heap \<times> world \<times> obj outcome" where
  "request binding frontendUrl h w intent p =
     (case p of
        None \<Rightarrow> (h, call_imported binding w (JObj (obj_set [] ''intent'' intent)) frontendUrl)
      | Some a \<Rightarrow>
          if is_frozen (h a) then (h, w, ThrowsTypeError)
          else
            (let h' = h(a := (h a)\<lparr>content := obj_set (content (h a)) ''intent'' intent\<rparr>)
             in (h', call_imported binding w (JObj (content (h' a))) frontendUrl)))"

section \<open>Auxiliary notions for the properties\<close>

text \<open>The rejections raised by validation, as opposed to those passed on from a transport.\<close>

fun is_validation_error :: "error \<Rightarrow> bool" where
  "is_validation_error (TransportError r) = False"
| "is_validation_error e = True"

text \<open>The first declared parameter that is required and has no truthy value in \<open>p\<close>.\<close>

fun first_missing :: "(string \<times> param_props) list \<Rightarrow> jsval \<Rightarrow> string option" where
  "first_missing [] p = None"
| "first_missing ((k, props) # rest) p =
     (if \<not> truthy (get p k) \<and> required props then Some k else first_missing rest p)"

text \<open>The declared parameters enumerated before \<open>k\<close>.\<close>

fun declared_before :: "string \<Rightarrow> (string \<times> param_props) list \<Rightarrow> (string \<times> param_props) list" where
  "declared_before k [] = []"
| "declared_before k ((k', props) # rest) =
     (if k' = k then [] else (k', props) # declared_before k rest)"

section \<open>Example data\<close>

text \<open>
  A registry table with three of the intents of the public interface, their parameters as
  documented on the methods \<open>tx\<close>, \<open>pay\<close> and \<open>implicitFlow\<close>, and its read; a well-formed public key; an
  environment without extension and without sessions, and one holding a session.
\<close>

definition optional :: param_props where
  "optional = \<lparr>required = False\<rparr>"

definition mandatory :: param_props where
  "mandatory = \<lparr>required = True\<rparr>"

definition tx_descriptor :: intent_descriptor where
  "tx_descriptor =
     \<lparr>params = [(''xdr'', mandatory), (''pubkey'', optional), (''network'', optional),
                (''submit'', optional)]\<rparr>"

definition pay_descriptor :: intent_descriptor where
  "pay_descriptor =
     \<lparr>params = [(''amount'', mandatory), (''destination'', mandatory), (''asset_code'', optional),
                (''asset_issuer'', optional), (''memo'', optional), (''memo_type'', optional),
                (''pubkey'', optional), (''network'', optional), (''submit'', optional)]\<rparr>"

definition implicit_flow_descriptor :: intent_descriptor where
  "implicit_flow_descriptor = \<lparr>params = [(''intents'', mandatory), (''network'', optional)]\<rparr>"

definition example_table :: intent_table where
  "example_table k =
     (if k = ''tx'' then Some tx_descriptor
      else if k = ''pay'' then Some pay_descriptor
      else if k = ''implicit_flow'' then Some implicit_flow_descriptor
      else None)"

definition example_registry :: registry where
  "example_registry = intentInterface_read example_table"

definition example_pubkey :: string where
  "example_pubkey = ''GAAAAAAAAAAAAAAAAAAAAAAAAAAAAAAAAAAAAAAAAAAAAAAAAAAAAAAA''"

definition example_url :: string where
  "example_url = ''https://albedo.link''"

definition example_world :: world where
  "example_world =
     \<lparr>extensionEnabled = False, clock = 1000, sessions = Map.empty, created = [], posted = []\<rparr>"

definition example_session :: implicit_session where
  "example_session =
     \<lparr>key = JStr ''token'', valid_until = JNum 5000, grants = JArr [JStr ''tx'', JStr ''pay'']\<rparr>"

definition session_world :: world where
  "session_world =
     \<lparr>extensionEnabled = False, clock = 1000,
      sessions = Map.empty(example_pubkey \<mapsto> example_session), created = [], posted = []\<rparr>"

definition grant_result :: obj where
  "grant_result =
     [(''intent'', JStr ''implicit_flow''), (''granted'', JBool True),
      (''pubkey'', JStr example_pubkey), (''session'', JStr ''token''),
      (''valid_until'', JNum 5000), (''grants'', JArr [JStr ''tx'', JStr ''pay''])]"

definition grant_remote :: remote where
  "grant_remote t envelope = Inr grant_result"

definition signed_remote :: remote where
  "signed_remote t envelope =
     Inr [(''intent'', obj_get envelope ''intent''), (''signed_envelope_xdr'', JStr ''AAAA'')]"

definition tx_envelope :: obj where
  "tx_envelope = [(''intent'', JStr ''tx''), (''xdr'', JStr ''AAAA''), (''pubkey'', JStr example_pubkey)]"

definition flow_envelope :: obj where
  "flow_envelope = [(''intent'', JStr ''implicit_flow''), (''intents'', JArr [JStr ''tx'', JStr ''pay''])]"

definition caller_params :: jsval where
  "caller_params =
     JObj [(''intent'', JStr ''tx''), (''xdr'', JStr ''AAAA''),
           (''callback'', JStr ''https://example.org''), (''submit'', JBool False)]"

definition params_without_intent :: jsval where
  "params_without_intent = JObj [(''xdr'', JStr ''AAAA''), (''intent'', JStr [])]"

definition transfer_params :: jsval where
  "transfer_params = JObj [(''intent'', JStr ''transfer''), (''pubkey'', JStr ''GABC'')]"

definition function_params :: jsval where
  "function_params = JFun ''function () {}'' [(''intent'', JStr ''tx''), (''xdr'', JStr ''AAAA'')]"

definition bad_pubkey_params :: jsval where
  "bad_pubkey_params =
     JObj [(''intent'', JStr ''tx''), (''xdr'', JStr ''AAAA''), (''pubkey'', JStr ''GABC'')]"

definition pay_params :: jsval where
  "pay_params = JObj [(''intent'', JStr ''pay''), (''amount'', JStr ''10'')]"

definition empty_pay_params :: jsval where
  "empty_pay_params = JObj [(''intent'', JStr ''pay'')]"

definition tx_without_xdr :: jsval where
  "tx_without_xdr = JObj [(''intent'', JStr ''tx''), (''pubkey'', JStr example_pubkey)]"

definition inherited_params :: jsval where
  "inherited_params = JObj [(''intent'', JStr ''toString'')]"




section \<open>Basic facts\<close>

lemma map_of_obj_set: "map_of (obj_set ps k v) = (map_of ps)(k \<mapsto> v)"
  by (induction ps) (auto simp: fun_eq_iff)

lemma obj_get_obj_set: "obj_get (obj_set ps k v) k' = (if k' = k then v else obj_get ps k')"
  by (simp add: obj_get_def map_of_obj_set)

lemma keys_obj_set: "fst ` set (obj_set ps k v) = insert k (fst ` set ps)"
  by (simp add: dom_map_of_conv_image_fst [symmetric] map_of_obj_set)

lemma distinct_obj_set: "distinct (map fst ps) \<Longrightarrow> distinct (map fst (obj_set ps k v))"
  by (induction ps) (auto simp: keys_obj_set)

text \<open>The decimal rendering of an index consists of digits, so it is never \<open>intent\<close>.\<close>

lemma show_nat_digits: "list_all (\<lambda>c. (of_char c :: nat) < 58) (show_nat n)"
proof (induction n rule: show_nat.induct)
  case (1 n)
  show ?case
  proof (cases "n < 10")
    case True
    then show ?thesis by (subst show_nat.simps) simp
  next
    case False
    have "n mod 10 < 10" by simp
    then have "(48 + n mod 10) mod 256 < 58" by simp
    with False 1 show ?thesis by (subst show_nat.simps) simp
  qed
qed

lemma show_nat_not_intent: "show_nat n \<noteq> ''intent''" "''intent'' \<noteq> show_nat n"
proof -
  show "show_nat n \<noteq> ''intent''"
  proof
    assume "show_nat n = ''intent''"
    with show_nat_digits [of n] show False by simp
  qed
  then show "''intent'' \<noteq> show_nat n" by (rule not_sym)
qed

lemma index_props_intent:
  "map_of (map (\<lambda>i. (show_nat i, f i)) is) ''intent'' = None"
  by (induction "is") (simp_all add: show_nat_not_intent)

text \<open>A string, a number or a boolean has no property \<open>intent\<close>.\<close>

lemma primitive_no_intent:
  "typeof p \<noteq> ''object'' \<Longrightarrow> typeof p \<noteq> ''function'' \<Longrightarrow> get p ''intent'' = JUndefined"
  by (cases p) (simp_all add: get_def obj_get_def index_props_intent map_add_def)

lemma prepare_non_object:
  "typeof p \<noteq> ''object'' \<Longrightarrow> prepareRequestParams d p = Rejected InvalidParameters"
  by (simp add: prepareRequestParams_def)

text \<open>Facts about the example data.\<close>

lemma example_pubkey_nonempty: "example_pubkey \<noteq> []"
  by (simp add: example_pubkey_def)

lemma example_pubkey_test: "pubkey_test (JStr example_pubkey)"
  by (simp add: pubkey_test_def pubkey_shape_def example_pubkey_def upper_alnum_def)

lemma example_session_applicable:
  "getImplicitSession (sessions session_world) (clock session_world) (JStr ''tx'') (JStr example_pubkey)
     = Some example_session"
  by (simp add: getImplicitSession_def session_world_def example_session_def not_expired_def
      grants_include_def)

lemma tx_envelope_reads:
  "obj_get tx_envelope ''pubkey'' = JStr example_pubkey"
  "obj_get tx_envelope ''intent'' = JStr ''tx''"
  by (simp_all add: obj_get_def tx_envelope_def)

lemma example_registry_reads:
  "example_registry ''tx'' = Some tx_descriptor"
  "example_registry ''pay'' = Some pay_descriptor"
  "example_registry ''transfer'' = None"
  by (simp_all add: example_registry_def intentInterface_read_def example_table_def
      object_prototype_members_def)

section \<open>Transport selection\<close>

text \<open>
  \<open>sendRequest\<close> with its three assignments to \<open>transport\<close> merged into one choice.
\<close>

lemma sendRequest_unfold:
  "sendRequest answer w p url =
     (let session = (if truthy (obj_get p ''pubkey'')
                     then getImplicitSession (sessions w) (clock w) (obj_get p ''intent'') (obj_get p ''pubkey'')
                     else None);
          selected = (if extensionEnabled w then Extension
                      else if session \<noteq> None then Iframe url
                      else Dialog url);
          envelope = (case session of Some s \<Rightarrow> obj_set p ''session'' (key s) | None \<Rightarrow> p);
          w' = w\<lparr>created := created w @ [selected], posted := posted w @ [(selected, envelope)]\<rparr>
      in case answer selected envelope of
           Inl reason \<Rightarrow> (w', Rejected (TransportError reason))
         | Inr result \<Rightarrow>
             (if obj_get result ''intent'' = JStr ''implicit_flow'' \<and> truthy (obj_get result ''granted'')
              then w'\<lparr>sessions := addSession result (sessions w')\<rparr>
              else w',
              Resolved result))"
proof (cases "if truthy (obj_get p ''pubkey'')
                then getImplicitSession (sessions w) (clock w) (obj_get p ''intent'') (obj_get p ''pubkey'')
                else None")
  case None
  then show ?thesis
    by (cases "extensionEnabled w") (simp_all add: sendRequest_def Let_def split: sum.split)
next
  case (Some s)
  then show ?thesis
    by (cases "extensionEnabled w") (simp_all add: sendRequest_def Let_def split: sum.split)
qed

text \<open>
  Claim C1. For every envelope, \<open>sendRequest\<close> builds exactly one transport and posts
  exactly one message on it. The transport is the extension transport whenever the
  extension is enabled, whatever the session state; otherwise the iframe transport when the
  envelope carries a truthy \<open>pubkey\<close> and the session store returns a session (non-expired,
  granting this intent) for it; otherwise the dialog transport. The posted envelope carries
  the stored token as \<open>session\<close> whenever such a session exists, also under the extension
  transport, and is the unchanged envelope when none exists.
\<close>

theorem sendRequest_transport_selection:
  "(let session = (if truthy (obj_get p ''pubkey'')
                   then getImplicitSession (sessions w) (clock w) (obj_get p ''intent'') (obj_get p ''pubkey'')
                   else None);
        selected = (if extensionEnabled w then Extension
                    else if session \<noteq> None then Iframe url
                    else Dialog url);
        envelope = (case session of Some s \<Rightarrow> obj_set p ''session'' (key s) | None \<Rightarrow> p);
        w' = fst (sendRequest answer w p url)
    in created w' = created w @ [selected] \<and> posted w' = posted w @ [(selected, envelope)]
       \<and> (case session of Some s \<Rightarrow> obj_get envelope ''session'' = key s | None \<Rightarrow> True))"
  by (simp add: sendRequest_unfold Let_def obj_get_obj_set split: sum.split option.split)

text \<open>
  With a stored session for the key and the intent, and no extension, the envelope goes to
  the iframe transport with the token attached.
\<close>

theorem sendRequest_transport_selection_witness:
  "created (fst (sendRequest signed_remote session_world tx_envelope example_url)) = [Iframe example_url]
   \<and> posted (fst (sendRequest signed_remote session_world tx_envelope example_url))
       = [(Iframe example_url, tx_envelope @ [(''session'', JStr ''token'')])]"
proof -
  have c: "created session_world = []" "posted session_world = []" "\<not> extensionEnabled session_world"
    by (simp_all add: session_world_def)
  have k: "key example_session = JStr ''token''"
    by (simp add: example_session_def)
  have e: "obj_set tx_envelope ''session'' (JStr ''token'') = tx_envelope @ [(''session'', JStr ''token'')]"
    by (simp add: tx_envelope_def)
  show ?thesis
    using sendRequest_transport_selection [of tx_envelope session_world example_url signed_remote]
    by (simp add: Let_def tx_envelope_reads example_pubkey_nonempty c k e example_session_applicable)
qed

section \<open>Session persistence after the exchange\<close>

text \<open>
  Claim C2. Let the transport selected by \<open>sendRequest\<close> resolve its exchange with
  \<open>result\<close>. Then the call resolves with that same \<open>result\<close>. If \<open>result.intent\<close> is
  \<open>implicit_flow\<close> and \<open>result.granted\<close> is true (truthy, which for a boolean flag is being
  \<open>true\<close>), the session store on return is the one obtained by the store's add operation on
  \<open>result\<close>; for every other result the session store is the one before the call.
\<close>

theorem sendRequest_postprocess:
  assumes "posted (fst (sendRequest answer w p url)) = posted w @ [(t, envelope)]"
    and "answer t envelope = Inr result"
  shows "snd (sendRequest answer w p url) = Resolved result \<and>
         sessions (fst (sendRequest answer w p url)) =
           (if obj_get result ''intent'' = JStr ''implicit_flow'' \<and> truthy (obj_get result ''granted'')
            then addSession result (sessions w) else sessions w)"
proof -
  define session where "session = (if truthy (obj_get p ''pubkey'')
                   then getImplicitSession (sessions w) (clock w) (obj_get p ''intent'') (obj_get p ''pubkey'')
                   else None)"
  define t3 where "t3 = (if extensionEnabled w then Extension
                    else if session \<noteq> None then Iframe url
                    else Dialog url)"
  define p' where "p' = (case session of Some s \<Rightarrow> obj_set p ''session'' (key s) | None \<Rightarrow> p)"
  have sr: "sendRequest answer w p url =
     (let w' = w\<lparr>created := created w @ [t3], posted := posted w @ [(t3, p')]\<rparr>
      in case answer t3 p' of
           Inl reason \<Rightarrow> (w', Rejected (TransportError reason))
         | Inr result \<Rightarrow>
             (if obj_get result ''intent'' = JStr ''implicit_flow'' \<and> truthy (obj_get result ''granted'')
              then w'\<lparr>sessions := addSession result (sessions w')\<rparr>
              else w',
              Resolved result))"
    unfolding sendRequest_unfold [of answer w p url] session_def t3_def p'_def Let_def ..
  have "posted (fst (sendRequest answer w p url)) = posted w @ [(t3, p')]"
    by (simp add: sr Let_def split: sum.split)
  with assms(1) have eq: "t3 = t" "p' = envelope" by simp_all
  show ?thesis
    using assms(2) by (simp add: sr eq Let_def)
qed

text \<open>
  A granted \<open>implicit_flow\<close> answer received through the dialog is stored under its key.
\<close>

theorem sendRequest_postprocess_witness:
  "posted (fst (sendRequest grant_remote example_world flow_envelope example_url))
     = posted example_world @ [(Dialog example_url, flow_envelope)]
   \<and> grant_remote (Dialog example_url) flow_envelope = Inr grant_result
   \<and> snd (sendRequest grant_remote example_world flow_envelope example_url) = Resolved grant_result
   \<and> sessions (fst (sendRequest grant_remote example_world flow_envelope example_url)) example_pubkey
       = Some example_session"
proof -
  have p: "posted (fst (sendRequest grant_remote example_world flow_envelope example_url))
     = posted example_world @ [(Dialog example_url, flow_envelope)]"
    by (simp add: sendRequest_unfold Let_def example_world_def flow_envelope_def obj_get_def
        grant_remote_def)
  have a: "grant_remote (Dialog example_url) flow_envelope = Inr grant_result"
    by (simp add: grant_remote_def)
  have g: "obj_get grant_result ''intent'' = JStr ''implicit_flow''"
    "truthy (obj_get grant_result ''granted'')"
    by (simp_all add: grant_result_def obj_get_def)
  have s: "addSession grant_result (sessions example_world) example_pubkey = Some example_session"
    by (simp add: addSession_def grant_result_def obj_get_def example_session_def)
  show ?thesis
    using sendRequest_postprocess [OF p a] p a by (simp add: g s)
qed

section \<open>Parameter preparation builds the envelope from declared keys only\<close>

lemma check_params_map_of:
  "check_params ds p i acc = Resolved rp \<Longrightarrow>
   map_of rp k = (if k \<in> fst ` set ds \<and> truthy (get p k) then Some (get p k) else map_of acc k)"
proof (induction ds arbitrary: acc)
  case Nil
  then show ?case by simp
next
  case (Cons d ds)
  obtain name props where d: "d = (name, props)" by (cases d)
  show ?case
  proof (cases "truthy (get p name)")
    case True
    with Cons.prems d have "check_params ds p i (obj_set acc name (get p name)) = Resolved rp"
      by simp
    from Cons.IH [OF this] True d show ?thesis
      by (auto simp: map_of_obj_set)
  next
    case False
    with Cons.prems d have "check_params ds p i acc = Resolved rp"
      by (simp split: if_splits)
    from Cons.IH [OF this] False d show ?thesis
      by auto
  qed
qed

lemma check_params_distinct:
  "check_params ds p i acc = Resolved rp \<Longrightarrow> distinct (map fst acc) \<Longrightarrow> distinct (map fst rp)"
proof (induction ds arbitrary: acc)
  case Nil
  then show ?case by simp
next
  case (Cons d ds)
  obtain name props where d: "d = (name, props)" by (cases d)
  from Cons.prems d show ?case
    by (auto split: if_splits intro: Cons.IH distinct_obj_set)
qed

text \<open>
  Claim C3. When parameter preparation resolves, the envelope has each property once,
  and its properties are exactly: \<open>intent\<close>, with the caller's intent; and every parameter
  declared in the descriptor for which the caller supplied a truthy value, with that value.
  A parameter that the descriptor does not declare is not in the envelope.
\<close>

theorem prepareRequestParams_envelope:
  assumes "prepareRequestParams d p = Resolved rp"
  shows "distinct (map fst rp) \<and>
         (\<forall>k. map_of rp k =
            (if k = ''intent'' then Some (get p ''intent'')
             else if k \<in> fst ` set (params d) \<and> truthy (get p k) then Some (get p k)
             else None))"
proof -
  from assms have cp:
    "check_params (params d) p (get p ''intent'') [(''intent'', get p ''intent'')] = Resolved rp"
    by (simp add: prepareRequestParams_def split: if_splits)
  have "distinct (map fst rp)"
    using check_params_distinct [OF cp] by simp
  moreover have "map_of rp k =
            (if k = ''intent'' then Some (get p ''intent'')
             else if k \<in> fst ` set (params d) \<and> truthy (get p k) then Some (get p k)
             else None)" for k
    using check_params_map_of [OF cp, of k] by auto
  ultimately show ?thesis by blast
qed

lemma prepare_caller_params:
  "prepareRequestParams tx_descriptor caller_params
     = Resolved [(''intent'', JStr ''tx''), (''xdr'', JStr ''AAAA'')]"
  by (simp add: prepareRequestParams_def tx_descriptor_def caller_params_def get_def obj_get_def
      mandatory_def optional_def)

text \<open>
  A \<open>tx\<close> request with an undeclared \<open>callback\<close> and a false \<open>submit\<close>: only \<open>intent\<close> and
  \<open>xdr\<close> reach the envelope.
\<close>

theorem prepareRequestParams_envelope_witness:
  "prepareRequestParams tx_descriptor caller_params
     = Resolved [(''intent'', JStr ''tx''), (''xdr'', JStr ''AAAA'')]
   \<and> map_of [(''intent'', JStr ''tx''), (''xdr'', JStr ''AAAA'')] ''callback'' = None
   \<and> map_of [(''intent'', JStr ''tx''), (''xdr'', JStr ''AAAA'')] ''xdr'' = Some (get caller_params ''xdr'')"
  using prepareRequestParams_envelope [OF prepare_caller_params] prepare_caller_params
  by (simp add: caller_params_def get_def obj_get_def)

section \<open>Validation failures of the dispatcher\<close>

text \<open>
  Claim C4. For every params object (every value other than \<open>undefined\<close> and \<open>null\<close>)
  whose \<open>intent\<close> is absent or falsy, the dispatcher rejects with the missing-intent
  error, and the environment is as before the call.
\<close>

theorem missing_intent_rejected:
  "\<not> nullish p \<Longrightarrow> \<not> truthy (get p ''intent'') \<Longrightarrow>
   requestIntentConfirmation reg answer w p url = (w, Rejected MissingIntent)"
  by (simp add: requestIntentConfirmation_def)

text \<open>An object whose \<open>intent\<close> is the empty string.\<close>

theorem missing_intent_rejected_witness:
  "\<not> nullish params_without_intent \<and> \<not> truthy (get params_without_intent ''intent'')
   \<and> requestIntentConfirmation example_registry signed_remote session_world params_without_intent
        example_url = (session_world, Rejected MissingIntent)"
  using missing_intent_rejected [of params_without_intent example_registry signed_remote
      session_world example_url]
  by (simp add: params_without_intent_def get_def obj_get_def)

text \<open>
  Where the read of the registry is falsy, the dispatcher rejects with the unknown-intent
  error and the environment is as before the call. That is the case for every supplied
  intent for which the table has no entry, unless it names a member of \<open>Object.prototype\<close>.
\<close>

lemma falsy_read_rejected:
  "\<not> nullish p \<Longrightarrow> truthy (get p ''intent'') \<Longrightarrow> reg (ToString (get p ''intent'')) = None \<Longrightarrow>
   requestIntentConfirmation reg answer w p url = (w, Rejected (UnknownIntent (get p ''intent'')))"
  by (simp add: requestIntentConfirmation_def)

lemma absent_name_rejected:
  assumes "\<not> nullish p" and "truthy (get p ''intent'')"
    and "table (ToString (get p ''intent'')) = None"
    and "ToString (get p ''intent'') \<notin> set object_prototype_members"
  shows "requestIntentConfirmation (intentInterface_read table) answer w p url
           = (w, Rejected (UnknownIntent (get p ''intent'')))"
  using assms by (simp add: falsy_read_rejected intentInterface_read_def)

text \<open>
  Claim C5 says that every intent name for which the registry has no descriptor is
  rejected with the unknown-intent error before any transport work. The code tests the
  truthiness of the read \<open>intentInterface[intent]\<close>, and misses the names inherited from
  \<open>Object.prototype\<close>: the example table has no descriptor for \<open>toString\<close>, yet the call
  with \<open>{intent: 'toString'}\<close> passes the check, prepares the envelope \<open>{intent: 'toString'}\<close>,
  builds a dialog transport, posts the envelope on it and resolves with the remote answer.
\<close>

theorem inherited_name_dispatched:
  "example_table ''toString'' = None
   \<and> requestIntentConfirmation example_registry signed_remote example_world inherited_params
        example_url
       = (example_world\<lparr>created := [Dialog example_url],
            posted := [(Dialog example_url, [(''intent'', JStr ''toString'')])]\<rparr>,
          Resolved [(''intent'', JStr ''toString''), (''signed_envelope_xdr'', JStr ''AAAA'')])"
proof -
  have r: "example_registry ''toString'' = Some \<lparr>params = []\<rparr>"
    by (simp add: example_registry_def intentInterface_read_def example_table_def
        object_prototype_members_def)
  have i: "get inherited_params ''intent'' = JStr ''toString''"
    "get inherited_params ''pubkey'' = JUndefined"
    "\<not> nullish inherited_params" "typeof inherited_params = ''object''"
    by (simp_all add: inherited_params_def get_def obj_get_def)
  have prep: "prepareRequestParams \<lparr>params = []\<rparr> inherited_params
                = Resolved [(''intent'', JStr ''toString'')]"
    by (simp add: prepareRequestParams_def i)
  have send: "sendRequest signed_remote example_world [(''intent'', JStr ''toString'')] example_url
       = (example_world\<lparr>created := [Dialog example_url],
            posted := [(Dialog example_url, [(''intent'', JStr ''toString'')])]\<rparr>,
          Resolved [(''intent'', JStr ''toString''), (''signed_envelope_xdr'', JStr ''AAAA'')])"
    by (simp add: sendRequest_def Let_def obj_get_def example_world_def signed_remote_def)
  have "example_table ''toString'' = None"
    by (simp add: example_table_def)
  then show ?thesis
    by (simp add: requestIntentConfirmation_def i r prep send)
qed

text \<open>
  Claim C6, as stated, fails: the dispatcher reads \<open>params.intent\<close> and looks the intent
  up before \<open>prepareRequestParams\<close> tests \<open>typeof params\<close>, so a string is rejected for its
  missing intent.
\<close>

theorem non_object_params_counterexample:
  "typeof (JStr ''tx'') \<noteq> ''object''
   \<and> requestIntentConfirmation example_registry signed_remote example_world (JStr ''tx'') example_url
       = (example_world, Rejected MissingIntent)"
  by (simp add: requestIntentConfirmation_def primitive_no_intent)

text \<open>
  Claim C6, amended. For every params value whose \<open>typeof\<close> is not \<open>object\<close>, other than
  \<open>undefined\<close>: the dispatcher rejects, leaving the environment as it was, with the
  missing-intent error when the value has no truthy \<open>intent\<close> (as is the case for every
  string, number and boolean), with the unknown-intent error when the registry has no
  descriptor for its intent, and with the invalid-parameters error otherwise. Parameter
  preparation on its own rejects every such value with the invalid-parameters error.
\<close>

theorem non_object_params_rejected:
  assumes "typeof p \<noteq> ''object''" and "p \<noteq> JUndefined"
  shows "requestIntentConfirmation reg answer w p url =
           (w, Rejected (if \<not> truthy (get p ''intent'') then MissingIntent
                         else if reg (ToString (get p ''intent'')) = None then UnknownIntent (get p ''intent'')
                         else InvalidParameters))
         \<and> (typeof p = ''function'' \<or>
              requestIntentConfirmation reg answer w p url = (w, Rejected MissingIntent))
         \<and> prepareRequestParams d p = Rejected InvalidParameters"
proof -
  from assms have nn: "\<not> nullish p" by (cases p) simp_all
  have a: "requestIntentConfirmation reg answer w p url =
           (w, Rejected (if \<not> truthy (get p ''intent'') then MissingIntent
                         else if reg (ToString (get p ''intent'')) = None then UnknownIntent (get p ''intent'')
                         else InvalidParameters))"
    using nn assms(1)
    by (auto simp: requestIntentConfirmation_def prepare_non_object split: option.split)
  have b: "requestIntentConfirmation reg answer w p url = (w, Rejected MissingIntent)"
    if "typeof p \<noteq> ''function''"
    using primitive_no_intent [OF assms(1) that] by (simp add: a)
  from a b prepare_non_object [OF assms(1)] show ?thesis by blast
qed

text \<open>A function carrying the properties of a \<open>tx\<close> request reaches the test on \<open>typeof\<close>.\<close>

theorem non_object_params_rejected_witness:
  "typeof function_params \<noteq> ''object'' \<and> function_params \<noteq> JUndefined
   \<and> requestIntentConfirmation example_registry signed_remote session_world function_params
        example_url = (session_world, Rejected InvalidParameters)"
  using non_object_params_rejected [of function_params example_registry signed_remote
      session_world example_url tx_descriptor]
  by (simp add: function_params_def get_def obj_get_def example_registry_reads)

text \<open>
  Claim C7, as stated, fails: a malformed \<open>pubkey\<close> sent with an intent that the registry
  does not know is rejected for the unknown intent.
\<close>

theorem invalid_pubkey_counterexample:
  "truthy (get transfer_params ''pubkey'') \<and> \<not> pubkey_test (get transfer_params ''pubkey'')
   \<and> requestIntentConfirmation example_registry signed_remote example_world transfer_params
        example_url = (example_world, Rejected (UnknownIntent (JStr ''transfer'')))"
  by (simp add: requestIntentConfirmation_def transfer_params_def get_def obj_get_def
      example_registry_reads pubkey_test_def pubkey_shape_def)

text \<open>
  Claim C7, amended. For every call in which a \<open>pubkey\<close> is supplied (truthy) and its
  string form does not match \<open>^G[0-9A-Z]{55}$\<close>, the dispatcher rejects and leaves the
  environment as it was, so the malformed key is never dropped silently. The rejection is
  the invalid-pubkey error when the earlier checks pass, that is when \<open>params\<close> is an
  object with a truthy \<open>intent\<close> that has a descriptor; it is the missing-intent,
  unknown-intent or invalid-parameters error when the respective earlier check fails.
\<close>

theorem invalid_pubkey_rejected:
  assumes "\<not> nullish p" and "truthy (get p ''pubkey'')" and "\<not> pubkey_test (get p ''pubkey'')"
  shows "requestIntentConfirmation reg answer w p url =
           (w, Rejected (if \<not> truthy (get p ''intent'') then MissingIntent
                         else case reg (ToString (get p ''intent'')) of
                                None \<Rightarrow> UnknownIntent (get p ''intent'')
                              | Some d \<Rightarrow> if typeof p \<noteq> ''object'' then InvalidParameters
                                          else InvalidPubkey))"
  using assms
  by (simp add: requestIntentConfirmation_def prepareRequestParams_def split: option.split)

text \<open>A \<open>tx\<close> request with a key of four characters.\<close>

theorem invalid_pubkey_rejected_witness:
  "\<not> nullish bad_pubkey_params \<and> truthy (get bad_pubkey_params ''pubkey'')
   \<and> \<not> pubkey_test (get bad_pubkey_params ''pubkey'')
   \<and> requestIntentConfirmation example_registry signed_remote session_world bad_pubkey_params
        example_url = (session_world, Rejected InvalidPubkey)"
  using invalid_pubkey_rejected [of bad_pubkey_params example_registry signed_remote
      session_world example_url]
  by (simp add: bad_pubkey_params_def get_def obj_get_def example_registry_reads
      pubkey_test_def pubkey_shape_def)

section \<open>Required parameters\<close>

lemma check_params_first_missing:
  "first_missing ds p = Some q \<Longrightarrow> check_params ds p i acc = Rejected (MissingRequiredParameter q i)"
proof (induction ds arbitrary: acc)
  case Nil
  then show ?case by simp
next
  case (Cons d ds)
  obtain name props where d: "d = (name, props)" by (cases d)
  from Cons.prems d show ?case
    by (auto split: if_splits intro: Cons.IH)
qed

lemma first_missing_exists:
  "map_of ds k = Some props \<Longrightarrow> required props \<Longrightarrow> \<not> truthy (get p k) \<Longrightarrow>
   \<exists>q. first_missing ds p = Some q"
proof (induction ds)
  case Nil
  then show ?case by simp
next
  case (Cons d ds)
  obtain name pr where d: "d = (name, pr)" by (cases d)
  from Cons d show ?case
    by (cases "name = k") auto
qed

lemma first_missing_here:
  "map_of ds k = Some props \<Longrightarrow> required props \<Longrightarrow> \<not> truthy (get p k) \<Longrightarrow>
   first_missing (declared_before k ds) p = None \<Longrightarrow> first_missing ds p = Some k"
proof (induction ds)
  case Nil
  then show ?case by simp
next
  case (Cons d ds)
  obtain name pr where d: "d = (name, pr)" by (cases d)
  from Cons d show ?case
    by (cases "name = k") (auto split: if_splits)
qed

text \<open>
  Claim C8, as stated, fails: the loop rejects at the first required parameter without a
  truthy value. A \<open>pay\<close> request with neither \<open>amount\<close> nor \<open>destination\<close> lacks the required
  \<open>destination\<close>, and the rejection names \<open>amount\<close>.
\<close>

theorem missing_required_parameter_counterexample:
  \<open>map_of (params pay_descriptor) ''destination'' = Some mandatory \<and> required mandatory
   \<and> \<not> truthy (get empty_pay_params ''destination'')
   \<and> requestIntentConfirmation example_registry signed_remote example_world empty_pay_params
        example_url = (example_world, Rejected (MissingRequiredParameter ''amount'' (JStr ''pay'')))
   \<and> message (MissingRequiredParameter ''amount'' (JStr ''pay''))
       = ''Parameter "amount" is required for intent "pay".''\<close>
  by (simp add: requestIntentConfirmation_def prepareRequestParams_def empty_pay_params_def
      get_def obj_get_def example_registry_reads pay_descriptor_def mandatory_def optional_def
      message_def)

text \<open>
  Claim C8, amended. For every intent whose descriptor marks a parameter \<open>p\<close> as required,
  a dispatch call on a params object whose \<open>pubkey\<close> is absent, falsy or well-formed and in
  which \<open>p\<close> is absent or falsy rejects with the missing-required-parameter error, leaving
  the environment as it was. Its message names the intent and the first declared required
  parameter that has no truthy value; that parameter is \<open>p\<close> itself when every required
  parameter declared before \<open>p\<close> has a truthy value.
\<close>

theorem missing_required_parameter_rejected:
  assumes "typeof p = ''object''" and "\<not> nullish p"
    and "truthy (get p ''intent'')"
    and "reg (ToString (get p ''intent'')) = Some d"
    and "\<not> truthy (get p ''pubkey'') \<or> pubkey_test (get p ''pubkey'')"
    and "map_of (params d) k = Some props" and "required props"
    and "\<not> truthy (get p k)"
  shows \<open>\<exists>q. first_missing (params d) p = Some q
           \<and> requestIntentConfirmation reg answer w p url
               = (w, Rejected (MissingRequiredParameter q (get p ''intent'')))
           \<and> message (MissingRequiredParameter q (get p ''intent''))
               = ''Parameter "'' @ q @ ''" is required for intent "'' @ ToString (get p ''intent'') @ ''".''
           \<and> (first_missing (declared_before k (params d)) p = None \<longrightarrow> q = k)\<close>
proof -
  from first_missing_exists [OF assms(6,7,8)] obtain q where q: "first_missing (params d) p = Some q"
    by blast
  have prep: "prepareRequestParams d p = Rejected (MissingRequiredParameter q (get p ''intent''))"
    using assms(1,2,5) check_params_first_missing [OF q]
    by (auto simp: prepareRequestParams_def)
  have r: "requestIntentConfirmation reg answer w p url
             = (w, Rejected (MissingRequiredParameter q (get p ''intent'')))"
    using assms(2,3,4) by (simp add: requestIntentConfirmation_def prep)
  have k: "q = k" if "first_missing (declared_before k (params d)) p = None"
    using first_missing_here [OF assms(6,7,8) that] q by simp
  show ?thesis
    using q r k by (simp add: message_def)
qed

text \<open>A \<open>pay\<close> request with an \<open>amount\<close> and no \<open>destination\<close>.\<close>

theorem missing_required_parameter_rejected_witness:
  \<open>typeof pay_params = ''object'' \<and> \<not> nullish pay_params \<and> truthy (get pay_params ''intent'')
   \<and> example_registry (ToString (get pay_params ''intent'')) = Some pay_descriptor
   \<and> \<not> truthy (get pay_params ''pubkey'')
   \<and> map_of (params pay_descriptor) ''destination'' = Some mandatory \<and> required mandatory
   \<and> \<not> truthy (get pay_params ''destination'')
   \<and> first_missing (declared_before ''destination'' (params pay_descriptor)) pay_params = None
   \<and> requestIntentConfirmation example_registry signed_remote session_world pay_params example_url
       = (session_world, Rejected (MissingRequiredParameter ''destination'' (JStr ''pay'')))
   \<and> message (MissingRequiredParameter ''destination'' (JStr ''pay''))
       = ''Parameter "destination" is required for intent "pay".''\<close>
proof -
  have h: "typeof pay_params = ''object''" "\<not> nullish pay_params" "truthy (get pay_params ''intent'')"
    "example_registry (ToString (get pay_params ''intent'')) = Some pay_descriptor"
    "\<not> truthy (get pay_params ''pubkey'') \<or> pubkey_test (get pay_params ''pubkey'')"
    "map_of (params pay_descriptor) ''destination'' = Some mandatory" "required mandatory"
    "\<not> truthy (get pay_params ''destination'')"
    by (simp_all add: pay_params_def get_def obj_get_def example_registry_reads pay_descriptor_def
        mandatory_def)
  have b: "first_missing (declared_before ''destination'' (params pay_descriptor)) pay_params = None"
    by (simp add: pay_params_def get_def obj_get_def pay_descriptor_def mandatory_def)
  have i: "get pay_params ''intent'' = JStr ''pay''" "\<not> truthy (get pay_params ''pubkey'')"
    by (simp_all add: pay_params_def get_def obj_get_def)
  from missing_required_parameter_rejected [where p = pay_params and reg = example_registry
      and d = pay_descriptor and k = "''destination''" and props = mandatory
      and answer = signed_remote and w = session_world and url = example_url, OF h] b
  have "requestIntentConfirmation example_registry signed_remote session_world pay_params example_url
       = (session_world, Rejected (MissingRequiredParameter ''destination'' (JStr ''pay'')))"
    by (auto simp: i)
  with h b i show ?thesis
    by (simp add: message_def)
qed

section \<open>Validation fails before any effect\<close>

lemma sendRequest_rejection:
  "snd (sendRequest answer w p url) = Rejected e \<Longrightarrow> \<not> is_validation_error e"
  by (auto simp: sendRequest_def Let_def split: sum.splits)

text \<open>
  Claim C9. Whenever a dispatch call ends in a validation error (missing intent, unknown
  intent, invalid parameters, invalid pubkey, missing required parameter), the environment
  after the call is the environment before it: no transport was built, no message was
  posted, and the session store was not written.
\<close>

theorem validation_failure_no_effect:
  assumes "snd (requestIntentConfirmation reg answer w p url) = Rejected e"
    and "is_validation_error e"
  shows "fst (requestIntentConfirmation reg answer w p url) = w"
proof (rule ccontr)
  assume neq: "fst (requestIntentConfirmation reg answer w p url) \<noteq> w"
  then obtain rp where
    "requestIntentConfirmation reg answer w p url = sendRequest answer w rp url"
    by (auto simp: requestIntentConfirmation_def split: if_splits option.splits outcome.splits)
  with assms(1) sendRequest_rejection have "\<not> is_validation_error e" by metis
  with assms(2) show False by simp
qed

text \<open>
  A \<open>tx\<close> request without \<open>xdr\<close> whose key has a stored session, answered by a remote side
  that would grant a session: the call fails on validation and nothing has happened.
\<close>

theorem validation_failure_no_effect_witness:
  "snd (requestIntentConfirmation example_registry grant_remote session_world tx_without_xdr example_url)
     = Rejected (MissingRequiredParameter ''xdr'' (JStr ''tx''))
   \<and> is_validation_error (MissingRequiredParameter ''xdr'' (JStr ''tx''))
   \<and> fst (requestIntentConfirmation example_registry grant_remote session_world tx_without_xdr example_url)
       = session_world"
proof -
  have s: "snd (requestIntentConfirmation example_registry grant_remote session_world tx_without_xdr
      example_url) = Rejected (MissingRequiredParameter ''xdr'' (JStr ''tx''))"
    by (simp add: requestIntentConfirmation_def prepareRequestParams_def tx_without_xdr_def
        get_def obj_get_def example_registry_reads tx_descriptor_def mandatory_def
        example_pubkey_nonempty example_pubkey_test)
  have v: "is_validation_error (MissingRequiredParameter ''xdr'' (JStr ''tx''))"
    by simp
  from validation_failure_no_effect [OF s v] s v show ?thesis
    by simp
qed

section \<open>The entry point overrides and writes the intent\<close>

lemma request_frozen:
  "is_frozen (h a) \<Longrightarrow> request binding url h w intent (Some a) = (h, w, ThrowsTypeError)"
  by (simp add: request_def)




end
